theory Spec2Isabelle
  imports Main
begin

section \<open>Strings\<close>

text \<open>
  Names are modelled as byte strings (\<open>string\<close>). \<open>lower\<close> is \<open>str.lower\<close> on ASCII
  text: the letters A to Z are moved to a to z and every other byte is left as it is.
\<close>

definition lower_char :: "char \<Rightarrow> char" where
  "lower_char c =
     (let n = (of_char c :: nat) in if 65 \<le> n \<and> n \<le> 90 then char_of (n + 32) else c)"

definition lower :: "string \<Rightarrow> string" where
  "lower s = map lower_char s"

text \<open>
  \<open>s.replace(old, new)\<close> where \<open>old\<close> is a single character, the only form the scanner
  uses (\<open>replace(' ', '-')\<close>, \<open>replace('-', '')\<close>, \<open>replace(' ', '')\<close>).
\<close>

definition replace :: "char \<Rightarrow> string \<Rightarrow> string \<Rightarrow> string" where
  "replace old new s = concat (map (\<lambda>c. if c = old then new else [c]) s)"

text \<open>\<open>s.startswith(p)\<close>, \<open>s.endswith(e)\<close> and the substring test \<open>a in b\<close>.\<close>

definition startswith :: "string \<Rightarrow> string \<Rightarrow> bool" where
  "startswith s p = (take (length p) s = p)"

definition endswith :: "string \<Rightarrow> string \<Rightarrow> bool" where
  "endswith s e = (length e \<le> length s \<and> drop (length s - length e) s = e)"

fun str_in :: "string \<Rightarrow> string \<Rightarrow> bool" where
  "str_in a [] = (a = [])"
| "str_in a (c # cs) = (startswith (c # cs) a \<or> str_in a cs)"

text \<open>\<open>os.path.join(a, b)\<close> of \<open>posixpath\<close>, for two components.\<close>

definition path_join :: "string \<Rightarrow> string \<Rightarrow> string" where
  "path_join a b =
     (if startswith b ''/'' then b
      else if a = [] \<or> endswith a ''/'' then a @ b
      else a @ ''/'' @ b)"

section \<open>Data model\<close>

text \<open>The dataclass \<open>AppInfo\<close>; the four optional fields default to \<open>None\<close>.\<close>

record AppInfo =
  name :: string
  path :: string
  is_brew :: bool
  brew_type :: "string option"
  has_brew_equivalent :: "bool option"
  brew_equivalent :: "string option"
  description :: "string option"

definition new_AppInfo :: "string \<Rightarrow> string \<Rightarrow> bool \<Rightarrow> string option \<Rightarrow> AppInfo" where
  "new_AppInfo n p b t =
     \<lparr>name = n, path = p, is_brew = b, brew_type = t,
      has_brew_equivalent = None, brew_equivalent = None, description = None\<rparr>"

text \<open>Truth value of an \<open>Optional[bool]\<close> in a condition: only \<open>True\<close> is truthy.\<close>

definition truthy :: "bool option \<Rightarrow> bool" where
  "truthy b = (b = Some True)"

text \<open>
  The state of \<open>BrewScanner\<close> that the scan uses. The two catalogs are Python sets; each is
  represented by the list of its elements in the order in which the set is iterated.
\<close>

record BrewScanner =
  brew_formulae :: "string list"
  brew_casks :: "string list"
  installed_apps :: "AppInfo list"

definition init_BrewScanner :: BrewScanner where
  "init_BrewScanner = \<lparr>brew_formulae = [], brew_casks = [], installed_apps = []\<rparr>"

text \<open>
  The file system as the scanner reads it: \<open>fs d = None\<close> when \<open>os.path.exists(d)\<close> is
  false, and \<open>fs d = Some items\<close> gives \<open>os.listdir(d)\<close> otherwise.
\<close>

type_synonym filesystem = "string \<Rightarrow> string list option"

datatype platform = Darwin | Linux | Other

section \<open>Fetching the catalogs\<close>

text \<open>
  \<open>get_brew_packages\<close>: the two arguments are the sets parsed from the output of
  \<open>brew list --formula\<close> and \<open>brew list --cask\<close>, \<open>None\<close> when the command raised
  \<open>CalledProcessError\<close>. A failing formula listing makes the function return \<open>False\<close>; a
  failing cask listing leaves the cask set empty.
\<close>

definition get_brew_packages ::
  "string list option \<Rightarrow> string list option \<Rightarrow> BrewScanner \<Rightarrow> bool \<times> BrewScanner" where
  "get_brew_packages formula_out cask_out s =
     (case formula_out of
        None \<Rightarrow> (False, s)
      | Some fs \<Rightarrow>
          (True, s\<lparr>brew_formulae := fs,
                   brew_casks := (case cask_out of None \<Rightarrow> [] | Some cs \<Rightarrow> cs)\<rparr>))"

section \<open>Discovering applications\<close>

text \<open>The test inside \<open>any(...)\<close> of \<open>get_applications_macos\<close>, for one cask.\<close>

definition is_cask_of :: "string \<Rightarrow> string \<Rightarrow> bool" where
  "is_cask_of app_name cask =
     (lower cask = app_name \<or>
      replace CHR ''-'' [] (lower cask) = replace CHR ''-'' [] app_name \<or>
      replace CHR ''-'' [] (lower cask) = replace CHR '' '' [] app_name)"

text \<open>The body of the inner loop of \<open>get_applications_macos\<close> for an item ending in \<open>.app\<close>.\<close>

definition macos_app :: "string list \<Rightarrow> string \<Rightarrow> string \<Rightarrow> AppInfo" where
  "macos_app casks app_dir item =
     (let app_name = lower (take (length item - 4) item);
          full_path = path_join app_dir item;
          is_brew_cask = list_ex (is_cask_of app_name) casks
      in new_AppInfo (take (length item - 4) item) full_path is_brew_cask
           (if is_brew_cask then Some ''cask'' else None))"

fun macos_items :: "string list \<Rightarrow> string \<Rightarrow> string list \<Rightarrow> AppInfo list \<Rightarrow> AppInfo list" where
  "macos_items casks app_dir [] apps = apps"
| "macos_items casks app_dir (item # items) apps =
     (if endswith item ''.app''
      then macos_items casks app_dir items (apps @ [macos_app casks app_dir item])
      else macos_items casks app_dir items apps)"

fun macos_dirs :: "string list \<Rightarrow> filesystem \<Rightarrow> string list \<Rightarrow> AppInfo list \<Rightarrow> AppInfo list" where
  "macos_dirs casks fs [] apps = apps"
| "macos_dirs casks fs (app_dir # dirs) apps =
     (case fs app_dir of
        None \<Rightarrow> macos_dirs casks fs dirs apps
      | Some items \<Rightarrow> macos_dirs casks fs dirs (macos_items casks app_dir items apps))"

text \<open>\<open>home\<close> is the user's home directory, which \<open>os.path.expanduser\<close> puts for \<open>~\<close>.\<close>

definition get_applications_macos :: "string \<Rightarrow> filesystem \<Rightarrow> BrewScanner \<Rightarrow> AppInfo list" where
  "get_applications_macos home fs s =
     macos_dirs (brew_casks s) fs
       [''/Applications'', ''/System/Applications'', home @ ''/Applications''] []"

text \<open>The body of the inner loop of \<open>get_applications_linux\<close> for an item ending in \<open>.desktop\<close>.\<close>

definition linux_app :: "string list \<Rightarrow> string \<Rightarrow> string \<Rightarrow> AppInfo" where
  "linux_app formulae desktop_dir item =
     (let app_name = take (length item - 8) item;
          full_path = path_join desktop_dir item;
          is_brew_formula = List.member (map lower formulae) (lower app_name)
      in new_AppInfo app_name full_path is_brew_formula
           (if is_brew_formula then Some ''formula'' else None))"

fun linux_items :: "string list \<Rightarrow> string \<Rightarrow> string list \<Rightarrow> AppInfo list \<Rightarrow> AppInfo list" where
  "linux_items formulae desktop_dir [] apps = apps"
| "linux_items formulae desktop_dir (item # items) apps =
     (if endswith item ''.desktop''
      then linux_items formulae desktop_dir items (apps @ [linux_app formulae desktop_dir item])
      else linux_items formulae desktop_dir items apps)"

fun linux_dirs :: "string list \<Rightarrow> filesystem \<Rightarrow> string list \<Rightarrow> AppInfo list \<Rightarrow> AppInfo list" where
  "linux_dirs formulae fs [] apps = apps"
| "linux_dirs formulae fs (desktop_dir # dirs) apps =
     (case fs desktop_dir of
        None \<Rightarrow> linux_dirs formulae fs dirs apps
      | Some items \<Rightarrow> linux_dirs formulae fs dirs (linux_items formulae desktop_dir items apps))"

definition get_applications_linux :: "string \<Rightarrow> filesystem \<Rightarrow> BrewScanner \<Rightarrow> AppInfo list" where
  "get_applications_linux home fs s =
     linux_dirs (brew_formulae s) fs
       [''/usr/share/applications'', home @ ''/.local/share/applications''] []"

section \<open>Searching for equivalents\<close>

text \<open>The condition of the \<open>if\<close> in both search loops of \<open>check_brew_equivalents\<close>.\<close>

definition equivalent_test :: "string \<Rightarrow> string \<Rightarrow> bool" where
  "equivalent_test key pkg =
     (lower pkg = key \<or>
      replace CHR ''-'' [] (lower pkg) = replace CHR ''-'' [] key \<or>
      str_in key (lower pkg) \<or> str_in (lower pkg) key)"

text \<open>
  One search loop (\<open>for cask in self.brew_casks\<close>, \<open>for formula in self.brew_formulae\<close>):
  the first package passing the test is written into the record and the loop breaks.
\<close>

fun search_catalog :: "string \<Rightarrow> string list \<Rightarrow> AppInfo \<Rightarrow> AppInfo" where
  "search_catalog key [] app = app"
| "search_catalog key (pkg # pkgs) app =
     (if equivalent_test key pkg
      then app\<lparr>has_brew_equivalent := Some True, brew_equivalent := Some pkg\<rparr>
      else search_catalog key pkgs app)"

text \<open>
  The key \<open>app.name.lower().replace(' ', '-')\<close> under which an application is looked up.
\<close>

definition app_name_lower :: "string \<Rightarrow> string" where
  "app_name_lower n = replace CHR '' '' ''-'' (lower n)"

text \<open>The body of \<open>for app in apps\<close> in \<open>check_brew_equivalents\<close>.\<close>

definition check_app :: "string list \<Rightarrow> string list \<Rightarrow> AppInfo \<Rightarrow> AppInfo" where
  "check_app casks formulae app =
     (if \<not> is_brew app then
        (let key = app_name_lower (name app);
             app1 = search_catalog key casks app;
             app2 = (if \<not> truthy (has_brew_equivalent app1)
                     then search_catalog key formulae app1 else app1);
             app3 = (if \<not> truthy (has_brew_equivalent app2)
                     then app2\<lparr>has_brew_equivalent := Some False\<rparr> else app2)
         in app3)
      else app)"

fun check_brew_equivalents :: "string list \<Rightarrow> string list \<Rightarrow> AppInfo list \<Rightarrow> AppInfo list" where
  "check_brew_equivalents casks formulae [] = []"
| "check_brew_equivalents casks formulae (app # apps) =
     check_app casks formulae app # check_brew_equivalents casks formulae apps"

section \<open>The scan\<close>

definition run_scan ::
  "platform \<Rightarrow> string \<Rightarrow> filesystem \<Rightarrow> string list option \<Rightarrow> string list option \<Rightarrow>
   BrewScanner \<Rightarrow> bool \<times> BrewScanner" where
  "run_scan plat home fs formula_out cask_out s =
     (case get_brew_packages formula_out cask_out s of
        (False, s1) \<Rightarrow> (False, s1)
      | (True, s1) \<Rightarrow>
          (case plat of
             Darwin \<Rightarrow>
               (True, s1\<lparr>installed_apps :=
                  check_brew_equivalents (brew_casks s1) (brew_formulae s1)
                    (get_applications_macos home fs s1)\<rparr>)
           | Linux \<Rightarrow>
               (True, s1\<lparr>installed_apps :=
                  check_brew_equivalents (brew_casks s1) (brew_formulae s1)
                    (get_applications_linux home fs s1)\<rparr>)
           | Other \<Rightarrow> (False, s1)))"

section \<open>Summary and export\<close>

datatype json =
  JNull | JBool bool | JInt int | JStr string | JList "json list" | JObj "(string \<times> json) list"

definition json_opt_str :: "string option \<Rightarrow> json" where
  "json_opt_str v = (case v of None \<Rightarrow> JNull | Some s \<Rightarrow> JStr s)"

definition json_opt_bool :: "bool option \<Rightarrow> json" where
  "json_opt_bool v = (case v of None \<Rightarrow> JNull | Some b \<Rightarrow> JBool b)"

fun field :: "json \<Rightarrow> string \<Rightarrow> json option" where
  "field (JObj kvs) k = map_of kvs k"
| "field _ k = None"

text \<open>The dictionary appended to \<open>apps_data\<close> for one record.\<close>

definition app_dict :: "AppInfo \<Rightarrow> json" where
  "app_dict app =
     JObj [(''name'', JStr (name app)),
           (''path'', JStr (path app)),
           (''is_brew'', JBool (is_brew app)),
           (''brew_type'', json_opt_str (brew_type app)),
           (''has_brew_equivalent'', json_opt_bool (has_brew_equivalent app)),
           (''brew_equivalent'', json_opt_str (brew_equivalent app))]"

fun apps_data :: "AppInfo list \<Rightarrow> json list \<Rightarrow> json list" where
  "apps_data [] acc = acc"
| "apps_data (app # apps) acc = apps_data apps (acc @ [app_dict app])"

text \<open>The dictionary \<open>export_data\<close>; \<open>ts\<close> is the string \<open>time.strftime\<close> returns.\<close>

definition export_data :: "string \<Rightarrow> AppInfo list \<Rightarrow> json" where
  "export_data ts apps =
     JObj [(''scan_timestamp'', JStr ts),
           (''total_apps'', JInt (int (length apps))),
           (''brew_managed'', JInt (int (length (filter is_brew apps)))),
           (''has_brew_equivalent'',
              JInt (int (length (filter (\<lambda>app. \<not> is_brew app \<and> truthy (has_brew_equivalent app)) apps)))),
           (''applications'', JList (apps_data apps []))]"

text \<open>\<open>export_to_json\<close> returns without writing anything when there are no records.\<close>

definition export_to_json :: "string \<Rightarrow> BrewScanner \<Rightarrow> json option" where
  "export_to_json ts s =
     (if installed_apps s = [] then None else Some (export_data ts (installed_apps s)))"

text \<open>
  The four numbers \<open>show_summary\<close> prints: total, brew managed, non-brew, has brew
  equivalent.
\<close>

definition show_summary :: "BrewScanner \<Rightarrow> nat \<times> nat \<times> nat \<times> nat" where
  "show_summary s =
     (let brew_apps = filter is_brew (installed_apps s);
          non_brew_apps = filter (\<lambda>app. \<not> is_brew app) (installed_apps s);
          has_equivalent = filter (\<lambda>app. truthy (has_brew_equivalent app)) non_brew_apps
      in (length (installed_apps s), length brew_apps, length non_brew_apps,
          length has_equivalent))"

section \<open>Facts about the string operations\<close>

lemma lower_char_idem: "lower_char (lower_char c) = lower_char c"
  by (simp add: lower_char_def Let_def)

lemma lower_char_hyphen: "lower_char CHR ''-'' = CHR ''-''"
  by (simp add: lower_char_def)

lemma lower_Nil: "lower [] = []"
  by (simp add: lower_def)

lemma lower_eq_Nil: "lower s = [] \<longleftrightarrow> s = []"
  by (simp add: lower_def)

lemma replace_single: "replace old [n] s = map (\<lambda>c. if c = old then n else c) s"
  by (induction s) (simp_all add: replace_def)

lemma replace_Nil: "replace old new [] = []"
  by (simp add: replace_def)

lemma app_name_lower_eq_Nil: "app_name_lower n = [] \<longleftrightarrow> n = []"
  by (simp add: app_name_lower_def replace_single lower_def)

lemma startswith_iff: "startswith s p \<longleftrightarrow> (\<exists>r. s = p @ r)"
  unfolding startswith_def
  by (metis append_eq_conv_conj append_take_drop_id)

text \<open>\<open>str_in a b\<close> holds exactly when \<open>a\<close> occurs in \<open>b\<close> as a contiguous piece.\<close>

lemma str_in_iff: "str_in a b \<longleftrightarrow> (\<exists>p s. b = p @ a @ s)"
proof (induction b)
  case Nil
  show ?case by auto
next
  case (Cons c cs)
  show ?case
  proof
    assume "str_in a (c # cs)"
    then consider "startswith (c # cs) a" | "str_in a cs" by auto
    then show "\<exists>p s. c # cs = p @ a @ s"
    proof cases
      case 1
      then obtain r where "c # cs = a @ r" by (auto simp: startswith_iff)
      then have "c # cs = [] @ a @ r" by simp
      then show ?thesis by blast
    next
      case 2
      then obtain p s where "cs = p @ a @ s" using Cons.IH by auto
      then have "c # cs = (c # p) @ a @ s" by simp
      then show ?thesis by blast
    qed
  next
    assume "\<exists>p s. c # cs = p @ a @ s"
    then obtain p s where ps: "c # cs = p @ a @ s" by auto
    show "str_in a (c # cs)"
    proof (cases p)
      case Nil
      with ps have "startswith (c # cs) a" by (auto simp: startswith_iff)
      then show ?thesis by simp
    next
      case (Cons d p')
      with ps have "cs = p' @ a @ s" by simp
      then have "str_in a cs" using Cons.IH by blast
      then show ?thesis by simp
    qed
  qed
qed

lemma str_in_empty: "str_in [] b"
  by (induction b) (simp_all add: startswith_def)

section \<open>Facts about the loops\<close>

lemma search_catalog_find:
  "search_catalog k pkgs app =
     (case find (equivalent_test k) pkgs of
        None \<Rightarrow> app
      | Some pkg \<Rightarrow> app\<lparr>has_brew_equivalent := Some True, brew_equivalent := Some pkg\<rparr>)"
  by (induction pkgs) simp_all

lemma check_brew_equivalents_map:
  "check_brew_equivalents casks formulae apps = map (check_app casks formulae) apps"
  by (induction apps) simp_all

lemma apps_data_map: "apps_data apps acc = acc @ map app_dict apps"
  by (induction apps arbitrary: acc) simp_all

lemma macos_items_map:
  "macos_items casks d items apps =
     apps @ map (macos_app casks d) (filter (\<lambda>item. endswith item ''.app'') items)"
  by (induction items arbitrary: apps) simp_all

lemma linux_items_map:
  "linux_items formulae d items apps =
     apps @ map (linux_app formulae d) (filter (\<lambda>item. endswith item ''.desktop'') items)"
  by (induction items arbitrary: apps) simp_all

section \<open>Facts about the classification of one record\<close>

lemma check_app_fresh:
  assumes "\<not> is_brew app" and "has_brew_equivalent app \<noteq> Some True"
  shows "check_app casks formulae app =
     (case find (equivalent_test (app_name_lower (name app))) casks of
        Some c \<Rightarrow> app\<lparr>has_brew_equivalent := Some True, brew_equivalent := Some c\<rparr>
      | None \<Rightarrow>
         (case find (equivalent_test (app_name_lower (name app))) formulae of
            Some f \<Rightarrow> app\<lparr>has_brew_equivalent := Some True, brew_equivalent := Some f\<rparr>
          | None \<Rightarrow> app\<lparr>has_brew_equivalent := Some False\<rparr>))"
  using assms
  by (simp add: check_app_def search_catalog_find truthy_def Let_def split: option.splits)

lemma check_app_owned: "is_brew app \<Longrightarrow> check_app casks formulae app = app"
  by (simp add: check_app_def)

lemma check_app_keeps:
  "name (check_app casks formulae app) = name app \<and>
   path (check_app casks formulae app) = path app \<and>
   is_brew (check_app casks formulae app) = is_brew app \<and>
   brew_type (check_app casks formulae app) = brew_type app \<and>
   description (check_app casks formulae app) = description app"
  by (simp add: check_app_def search_catalog_find truthy_def Let_def split: option.splits)


section \<open>Facts about discovery and the scan\<close>

lemma new_AppInfo_fields:
  "name (new_AppInfo n p b t) = n" "path (new_AppInfo n p b t) = p"
  "is_brew (new_AppInfo n p b t) = b" "brew_type (new_AppInfo n p b t) = t"
  "has_brew_equivalent (new_AppInfo n p b t) = None"
  "brew_equivalent (new_AppInfo n p b t) = None"
  "description (new_AppInfo n p b t) = None"
  by (simp_all add: new_AppInfo_def)

lemma macos_app_fresh:
  "(brew_type (macos_app casks d item) \<noteq> None) = is_brew (macos_app casks d item) \<and>
   has_brew_equivalent (macos_app casks d item) = None \<and>
   brew_equivalent (macos_app casks d item) = None"
  by (simp add: macos_app_def Let_def new_AppInfo_fields)

lemma linux_app_fresh:
  "(brew_type (linux_app formulae d item) \<noteq> None) = is_brew (linux_app formulae d item) \<and>
   has_brew_equivalent (linux_app formulae d item) = None \<and>
   brew_equivalent (linux_app formulae d item) = None"
  by (simp add: linux_app_def Let_def new_AppInfo_fields)

lemma macos_dirs_concat:
  "macos_dirs casks fs dirs apps =
     apps @ concat (map (\<lambda>d. case fs d of
                               None \<Rightarrow> []
                             | Some items \<Rightarrow>
                                 map (macos_app casks d)
                                   (filter (\<lambda>item. endswith item ''.app'') items)) dirs)"
  by (induction dirs arbitrary: apps) (simp_all add: macos_items_map split: option.splits)

lemma linux_dirs_concat:
  "linux_dirs formulae fs dirs apps =
     apps @ concat (map (\<lambda>d. case fs d of
                               None \<Rightarrow> []
                             | Some items \<Rightarrow>
                                 map (linux_app formulae d)
                                   (filter (\<lambda>item. endswith item ''.desktop'') items)) dirs)"
  by (induction dirs arbitrary: apps) (simp_all add: linux_items_map split: option.splits)

lemma macos_dirs_records:
  "r \<in> set (macos_dirs casks fs dirs []) \<Longrightarrow> \<exists>d item. r = macos_app casks d item"
  by (auto simp: macos_dirs_concat split: option.splits)

lemma linux_dirs_records:
  "r \<in> set (linux_dirs formulae fs dirs []) \<Longrightarrow> \<exists>d item. r = linux_app formulae d item"
  by (auto simp: linux_dirs_concat split: option.splits)

lemma check_app_invariant:
  assumes "(brew_type app \<noteq> None) = is_brew app"
    and "has_brew_equivalent app = None" and "brew_equivalent app = None"
  shows "(brew_type (check_app casks formulae app) \<noteq> None) = is_brew (check_app casks formulae app) \<and>
         (brew_equivalent (check_app casks formulae app) \<noteq> None) =
           (has_brew_equivalent (check_app casks formulae app) = Some True) \<and>
         \<not> (is_brew (check_app casks formulae app) \<and>
            brew_equivalent (check_app casks formulae app) \<noteq> None)"
proof (cases "is_brew app")
  case True
  with assms show ?thesis by (simp add: check_app_owned)
next
  case False
  with assms show ?thesis
    by (simp add: check_app_fresh split: option.splits)
qed

lemma run_scan_True:
  assumes "run_scan plat home fs formula_out cask_out s = (True, s')"
  shows "\<exists>formulae casks. formula_out = Some formulae \<and>
           casks = (case cask_out of None \<Rightarrow> [] | Some cs \<Rightarrow> cs) \<and>
           brew_formulae s' = formulae \<and> brew_casks s' = casks \<and>
           ((plat = Darwin \<and>
             installed_apps s' = map (check_app casks formulae)
               (macos_dirs casks fs
                  [''/Applications'', ''/System/Applications'', home @ ''/Applications''] [])) \<or>
            (plat = Linux \<and>
             installed_apps s' = map (check_app casks formulae)
               (linux_dirs formulae fs
                  [''/usr/share/applications'', home @ ''/.local/share/applications''] [])))"
  using assms
  by (cases plat; cases formula_out)
     (auto simp: run_scan_def get_brew_packages_def check_brew_equivalents_map
        get_applications_macos_def get_applications_linux_def
        simp del: macos_dirs.simps linux_dirs.simps)

lemma run_scan_record:
  assumes "run_scan plat home fs formula_out cask_out s = (True, s')"
    and "r \<in> set (installed_apps s')"
  shows "\<exists>app. r = check_app (brew_casks s') (brew_formulae s') app \<and>
           (brew_type app \<noteq> None) = is_brew app \<and>
           has_brew_equivalent app = None \<and> brew_equivalent app = None"
proof -
  from run_scan_True [OF assms(1)] obtain formulae casks where
    c: "brew_formulae s' = formulae" "brew_casks s' = casks" and
    d: "(plat = Darwin \<and>
             installed_apps s' = map (check_app casks formulae)
               (macos_dirs casks fs
                  [''/Applications'', ''/System/Applications'', home @ ''/Applications''] [])) \<or>
            (plat = Linux \<and>
             installed_apps s' = map (check_app casks formulae)
               (linux_dirs formulae fs
                  [''/usr/share/applications'', home @ ''/.local/share/applications''] []))"
    by blast
  from d show ?thesis
  proof
    assume "plat = Darwin \<and>
             installed_apps s' = map (check_app casks formulae)
               (macos_dirs casks fs
                  [''/Applications'', ''/System/Applications'', home @ ''/Applications''] [])"
    with assms(2) obtain app where
      "r = check_app casks formulae app"
      "app \<in> set (macos_dirs casks fs
                  [''/Applications'', ''/System/Applications'', home @ ''/Applications''] [])"
      by auto
    then show ?thesis
      using macos_dirs_records macos_app_fresh c by fastforce
  next
    assume "plat = Linux \<and>
             installed_apps s' = map (check_app casks formulae)
               (linux_dirs formulae fs
                  [''/usr/share/applications'', home @ ''/.local/share/applications''] [])"
    with assms(2) obtain app where
      "r = check_app casks formulae app"
      "app \<in> set (linux_dirs formulae fs
                  [''/usr/share/applications'', home @ ''/.local/share/applications''] [])"
      by auto
    then show ?thesis
      using linux_dirs_records linux_app_fresh c by fastforce
  qed
qed

section \<open>Claims\<close>



text \<open>
  C3. After a scan every record has \<open>brew_type\<close> set exactly when \<open>is_brew\<close> is true, has
  \<open>brew_equivalent\<close> set exactly when \<open>has_brew_equivalent\<close> is \<open>True\<close>, and is never both
  brew managed and carrying an equivalent.
\<close>

theorem run_scan_record_invariant:
  assumes "run_scan plat home fs formula_out cask_out s = (True, s')"
  shows "\<forall>r \<in> set (installed_apps s').
           (brew_type r \<noteq> None \<longleftrightarrow> is_brew r) \<and>
           (brew_equivalent r \<noteq> None \<longleftrightarrow> has_brew_equivalent r = Some True) \<and>
           \<not> (is_brew r \<and> brew_equivalent r \<noteq> None)"
proof
  fix r assume "r \<in> set (installed_apps s')"
  from run_scan_record [OF assms this] obtain app where
    "r = check_app (brew_casks s') (brew_formulae s') app"
    "(brew_type app \<noteq> None) = is_brew app"
    "has_brew_equivalent app = None" "brew_equivalent app = None"
    by blast
  then show "(brew_type r \<noteq> None \<longleftrightarrow> is_brew r) \<and>
           (brew_equivalent r \<noteq> None \<longleftrightarrow> has_brew_equivalent r = Some True) \<and>
           \<not> (is_brew r \<and> brew_equivalent r \<noteq> None)"
    using check_app_invariant by blast
qed

theorem run_scan_record_invariant_witness:
  "run_scan Darwin ''/Users/u''
     (map_of [(''/Applications'', [''Git.app'', ''Visual Studio Code.app'', ''notes.txt''])])
     (Some [''git'', ''htop'']) (Some [''visual-studio-code'']) init_BrewScanner =
   (True,
    \<lparr>brew_formulae = [''git'', ''htop''], brew_casks = [''visual-studio-code''],
     installed_apps =
       [\<lparr>name = ''Git'', path = ''/Applications/Git.app'', is_brew = False,
          brew_type = None, has_brew_equivalent = Some True,
          brew_equivalent = Some ''git'', description = None\<rparr>,
        \<lparr>name = ''Visual Studio Code'', path = ''/Applications/Visual Studio Code.app'',
          is_brew = True, brew_type = Some ''cask'', has_brew_equivalent = None,
          brew_equivalent = None, description = None\<rparr>]\<rparr>) \<and>
   (brew_type \<lparr>name = ''Git'', path = ''/Applications/Git.app'', is_brew = False,
          brew_type = None, has_brew_equivalent = Some True,
          brew_equivalent = Some ''git'', description = None\<rparr> \<noteq> None) =
     is_brew \<lparr>name = ''Git'', path = ''/Applications/Git.app'', is_brew = False,
          brew_type = None, has_brew_equivalent = Some True,
          brew_equivalent = Some ''git'', description = None\<rparr>"
proof -
  let ?r = "\<lparr>name = ''Git'', path = ''/Applications/Git.app'', is_brew = False,
          brew_type = None, has_brew_equivalent = Some True,
          brew_equivalent = Some ''git'', description = None\<rparr>"
  let ?s = "\<lparr>brew_formulae = [''git'', ''htop''], brew_casks = [''visual-studio-code''],
     installed_apps =
       [?r,
        \<lparr>name = ''Visual Studio Code'', path = ''/Applications/Visual Studio Code.app'',
          is_brew = True, brew_type = Some ''cask'', has_brew_equivalent = None,
          brew_equivalent = None, description = None\<rparr>]\<rparr>"
  have h: "run_scan Darwin ''/Users/u''
     (map_of [(''/Applications'', [''Git.app'', ''Visual Studio Code.app'', ''notes.txt''])])
     (Some [''git'', ''htop'']) (Some [''visual-studio-code'']) init_BrewScanner = (True, ?s)"
    by code_simp
  have m: "?r \<in> set (installed_apps ?s)" by simp
  from run_scan_record_invariant [OF h, THEN bspec, OF m]
  have "(brew_type ?r \<noteq> None) = is_brew ?r" by blast
  with h show ?thesis by blast
qed




end
